theory Spec2Isabelle
  imports Complex_Main
begin

section \<open>JavaScript values shared by both components\<close>

text \<open>
  A JavaScript number: a finite value, or one of the three non-finite ones.
  Arithmetic on numbers is never carried out in this development.
\<close>

datatype number = Finite real | NaN | PosInfinity | NegInfinity

text \<open>
  A value as \<^verbatim>\<open>response.json()\<close> can produce it, plus \<^verbatim>\<open>undefined\<close> (what reading
  a missing property gives). \<open>JObject\<close> lists the own properties of the object.
\<close>

datatype js_value =
    JUndefined
  | JNull
  | JBool bool
  | JNumber number
  | JString string
  | JArray "js_value list"
  | JObject "(string \<times> js_value) list"

text \<open>Truthiness, as \<^verbatim>\<open>||\<close>, \<^verbatim>\<open>&&\<close> and \<^verbatim>\<open>!\<close> test it.\<close>

fun truthy :: "js_value \<Rightarrow> bool" where
  "truthy JUndefined = False"
| "truthy JNull = False"
| "truthy (JBool b) = b"
| "truthy (JNumber n) = (n \<noteq> Finite 0 \<and> n \<noteq> NaN)"
| "truthy (JString s) = (s \<noteq> [])"
| "truthy (JArray _) = True"
| "truthy (JObject _) = True"

text \<open>
  An optional string field (\<^verbatim>\<open>string | undefined\<close>) is \<open>string option\<close>;
  \<open>v || d\<close> takes \<open>d\<close> when \<open>v\<close> is undefined or the empty string.
\<close>

definition or_default :: "string option \<Rightarrow> string \<Rightarrow> string" where
  "or_default v d = (case v of None \<Rightarrow> d | Some s \<Rightarrow> if s = [] then d else s)"

text \<open>What a \<^verbatim>\<open>throw\<close> or a rejected promise carries: an \<^verbatim>\<open>Error\<close> instance with its
  message, or any other value.\<close>

datatype thrown = Error string | Non_Error js_value

text \<open>How an awaited promise ends: it never settles, it rejects, or it fulfils.\<close>

datatype 'a promise = Never_settles | Rejected thrown | Fulfilled 'a

text \<open>The decimal text of a non-negative integer, as a template literal prints it.\<close>

fun decimal :: "nat \<Rightarrow> string" where
  "decimal n =
     (if n < 10 then [char_of (48 + n)]
      else decimal (n div 10) @ [char_of (48 + n mod 10)])"

declare decimal.simps [simp del]

section \<open>The rendered tree\<close>

text \<open>
  A JSX element is its tag, its props and its children; \<open>'h\<close> is the type of the
  \<^verbatim>\<open>onClick\<close> closures of the component. The framer-motion props are lists of named
  numbers.
\<close>

datatype 'h jsx_prop =
    ClassName string
  | Key string
  | Size string
  | Disabled bool
  | OnClick 'h
  | Initial "(string \<times> real) list"
  | Animate "(string \<times> real) list"
  | Exit "(string \<times> real) list"
  | Transition "(string \<times> real) list"

datatype 'h vnode =
    Text string
  | Element string "'h jsx_prop list" "'h vnode list"

text \<open>Every \<^verbatim>\<open>onClick\<close> closure of a tree, in document order.\<close>

fun onClicks :: "'h vnode \<Rightarrow> 'h list" where
  "onClicks (Text _) = []"
| "onClicks (Element t ps cs) =
     concat (map (\<lambda>p. case p of OnClick h \<Rightarrow> [h] | _ \<Rightarrow> []) ps) @ concat (map onClicks cs)"

text \<open>Every element of a tree with a given tag, in document order.\<close>

fun elements :: "string \<Rightarrow> 'h vnode \<Rightarrow> 'h vnode list" where
  "elements tg (Text _) = []"
| "elements tg (Element t ps cs) =
     (if t = tg then [Element t ps cs] else []) @ concat (map (elements tg) cs)"

text \<open>Every text of a tree, in document order.\<close>

fun texts :: "'h vnode \<Rightarrow> string list" where
  "texts (Text s) = [s]"
| "texts (Element t ps cs) = concat (map texts cs)"

text \<open>The props of an element, the elements of a list that carry a given
  \<^verbatim>\<open>className\<close>, and whether an element carries \<^verbatim>\<open>disabled={true}\<close>.\<close>

fun props_of :: "'h vnode \<Rightarrow> 'h jsx_prop list" where
  "props_of (Text _) = []"
| "props_of (Element t ps cs) = ps"

definition with_class :: "string \<Rightarrow> 'h vnode list \<Rightarrow> 'h vnode list" where
  "with_class c es = filter (\<lambda>e. ClassName c \<in> set (props_of e)) es"

definition disabled :: "'h vnode \<Rightarrow> bool" where
  "disabled e = (Disabled True \<in> set (props_of e))"

section \<open>action-toolbar.tsx\<close>

text \<open>
  \<^verbatim>\<open>ContextMetadata\<close> is declared in \<^verbatim>\<open>@/lib/types\<close>; the toolbar reads the two
  fields below, each a string that may be missing.
\<close>

record ContextMetadata =
  client_name :: "string option"
  phone :: "string option"

record toast_args =
  title :: string
  description :: js_value
  variant :: "string option"

record request =
  url :: string
  request_method :: string  \<comment> \<open>the \<^verbatim>\<open>method\<close> field\<close>
  headers :: "(string \<times> string) list"
  body :: js_value  \<comment> \<open>the object handed to \<^verbatim>\<open>JSON.stringify\<close>\<close>

record response =
  ok :: bool
  status :: nat
  json :: "js_value promise"  \<comment> \<open>how \<^verbatim>\<open>response.json()\<close> ends\<close>

text \<open>
  What the handler's surroundings decide: the build-time environment variable, how
  \<^verbatim>\<open>fetch\<close> ends for a request, and the engine's message for the \<^verbatim>\<open>TypeError\<close> of
  reading a property of \<^verbatim>\<open>null\<close>.
\<close>

record host =
  NEXT_PUBLIC_API_URL :: "string option"
  fetch_result :: "request \<Rightarrow> response promise"
  null_read_message :: string

text \<open>The effects a handler has, in the order it has them.\<close>

datatype event =
    is_SetIsLoading: SetIsLoading bool
  | is_Fetch: Fetch request
  | is_Toast: Toast toast_args
  | Console_error string thrown

text \<open>The component state (\<^verbatim>\<open>useState(false)\<close>) and the log of effects.\<close>

record world =
  isLoading :: bool
  events :: "event list"

definition initial_world :: world where
  "initial_world = \<lparr>isLoading = False, events = []\<rparr>"

definition setIsLoading :: "bool \<Rightarrow> world \<Rightarrow> world" where
  "setIsLoading b w = w\<lparr>isLoading := b, events := events w @ [SetIsLoading b]\<rparr>"

definition toast :: "toast_args \<Rightarrow> world \<Rightarrow> world" where
  "toast t w = w\<lparr>events := events w @ [Toast t]\<rparr>"

definition console_error :: "string \<Rightarrow> thrown \<Rightarrow> world \<Rightarrow> world" where
  "console_error s e w = w\<lparr>events := events w @ [Console_error s e]\<rparr>"

definition fetch :: "host \<Rightarrow> request \<Rightarrow> world \<Rightarrow> response promise \<times> world" where
  "fetch h req w = (fetch_result h req, w\<lparr>events := events w @ [Fetch req]\<rparr>)"

text \<open>\<^verbatim>\<open>data.message\<close>: a \<^verbatim>\<open>TypeError\<close> on \<^verbatim>\<open>null\<close>, the property of an object,
  \<^verbatim>\<open>undefined\<close> otherwise.\<close>

fun get_message :: "host \<Rightarrow> js_value \<Rightarrow> thrown + js_value" where
  "get_message h JNull = Inl (Error (null_read_message h))"
| "get_message h JUndefined = Inl (Error (null_read_message h))"
| "get_message h (JObject kvs) =
     (case map_of kvs ''message'' of None \<Rightarrow> Inr JUndefined | Some v \<Rightarrow> Inr v)"
| "get_message h _ = Inr JUndefined"

text \<open>The arguments of the \<^verbatim>\<open>fetch\<close> call (lines 31 to 43); \<open>name\<close> is
  \<^verbatim>\<open>metadata.client_name\<close>, known to be a non-empty string at this point.\<close>

definition call_request :: "ContextMetadata \<Rightarrow> string \<Rightarrow> host \<Rightarrow> request" where
  "call_request metadata name h =
     (let apiUrl = or_default (NEXT_PUBLIC_API_URL h) ''http://localhost:8000''
      in \<lparr>url = apiUrl @ ''/call_client'',
          request_method = ''POST'',
          headers = [(''Content-Type'', ''application/json'')],
          body = JObject
            [(''client_name'', JString name),
             (''phone'', JString (or_default (phone metadata) ''555-0100'')),
             (''reason'', JString ''Case review follow-up'')]\<rparr>)"

text \<open>The body of the \<^verbatim>\<open>try\<close> block (lines 31 to 54).\<close>

definition call_try ::
  "ContextMetadata \<Rightarrow> string \<Rightarrow> host \<Rightarrow> world \<Rightarrow> unit promise \<times> world" where
  "call_try metadata name h w =
     (let (res, w1) = fetch h (call_request metadata name h) w
      in case res of
           Never_settles \<Rightarrow> (Never_settles, w1)
         | Rejected e \<Rightarrow> (Rejected e, w1)
         | Fulfilled response \<Rightarrow>
             if \<not> ok response
             then (Rejected (Error (''API error: '' @ decimal (status response))), w1)
             else (case json response of
                     Never_settles \<Rightarrow> (Never_settles, w1)
                   | Rejected e \<Rightarrow> (Rejected e, w1)
                   | Fulfilled data \<Rightarrow>
                       (case get_message h data of
                          Inl e \<Rightarrow> (Rejected e, w1)
                        | Inr m \<Rightarrow>
                            (Fulfilled (),
                             toast \<lparr>title = ''Call Initiated'',
                                    description =
                                      (if truthy m then m
                                       else JString (''Calling '' @ name @ ''...'')),
                                    variant = None\<rparr> w1))))"

text \<open>The \<^verbatim>\<open>catch\<close> clause (lines 55 to 61).\<close>

definition call_catch :: "thrown \<Rightarrow> world \<Rightarrow> world" where
  "call_catch error w =
     toast \<lparr>title = ''Call Failed'',
            description =
              JString (case error of Error msg \<Rightarrow> msg | Non_Error _ \<Rightarrow> ''Unknown error''),
            variant = Some ''destructive''\<rparr>
       (console_error ''[v0] Call error:'' error w)"

text \<open>The guard of lines 19 to 26: the toast, then \<^verbatim>\<open>return\<close>.\<close>

definition missing_information :: "world \<Rightarrow> unit promise \<times> world" where
  "missing_information w =
     (Fulfilled (),
      toast \<lparr>title = ''Missing Information'',
             description = JString ''Client information not available'',
             variant = Some ''destructive''\<rparr> w)"

text \<open>
  \<^verbatim>\<open>handleCallClient\<close>. The result says how the promise of the async handler ends;
  a handler whose \<^verbatim>\<open>await\<close> never settles reaches neither \<^verbatim>\<open>catch\<close> nor
  \<^verbatim>\<open>finally\<close>. \<^verbatim>\<open>!metadata?.client_name\<close> holds when \<^verbatim>\<open>metadata\<close> is null and when
  the field is missing or the empty string.
\<close>

definition handleCallClient ::
  "ContextMetadata option \<Rightarrow> host \<Rightarrow> world \<Rightarrow> unit promise \<times> world" where
  "handleCallClient metadata h w =
     (case metadata of
        None \<Rightarrow> missing_information w
      | Some md \<Rightarrow>
          (case client_name md of
             None \<Rightarrow> missing_information w
           | Some name \<Rightarrow>
               if name = [] then missing_information w
               else
                 (let w1 = setIsLoading True w;
                      (r, w2) = call_try md name h w1
                  in case r of
                       Never_settles \<Rightarrow> (Never_settles, w2)
                     | Rejected e \<Rightarrow> (Fulfilled (), setIsLoading False (call_catch e w2))
                     | Fulfilled u \<Rightarrow> (Fulfilled (), setIsLoading False w2))))"

definition handleSendEmail :: "world \<Rightarrow> world" where
  "handleSendEmail w =
     toast \<lparr>title = ''Email Draft Created'',
            description = JString ''Opening email client...'',
            variant = None\<rparr> w"

definition handleScheduleMeeting :: "world \<Rightarrow> world" where
  "handleScheduleMeeting w =
     toast \<lparr>title = ''Calendar Opened'',
            description = JString ''Select a meeting time...'',
            variant = None\<rparr> w"

text \<open>The three \<^verbatim>\<open>onClick\<close> handlers of the toolbar.\<close>

datatype toolbar_handler = HandleCallClient | HandleSendEmail | HandleScheduleMeeting

text \<open>The tree \<^verbatim>\<open>ActionToolbar\<close> returns (lines 81 to 112), for the current state.
  The \<^verbatim>\<open>metadata\<close> prop is read by the handlers only.\<close>

definition ActionToolbar ::
  "ContextMetadata option \<Rightarrow> world \<Rightarrow> toolbar_handler vnode" where
  "ActionToolbar metadata w =
     Element ''motion.div''
       [Initial [(''opacity'', 0), (''y'', 20)],
        Animate [(''opacity'', 1), (''y'', 0)],
        ClassName ''border-t border-white/20 bg-black/30 backdrop-blur-sm p-4'']
       [Element ''div'' [ClassName ''flex items-center justify-center gap-4'']
          [Element ''Button''
             [OnClick HandleCallClient,
              Disabled (isLoading w),
              ClassName ''bg-[#D71920] hover:bg-[#B01518] text-white shadow-glow hover:scale-105 transition-transform font-sans'']
             [Element ''Phone'' [ClassName ''w-4 h-4 mr-2''] [], Text ''Call Client''],
           Element ''Button''
             [OnClick HandleSendEmail,
              ClassName ''bg-[#FFD700] hover:bg-[#FFD700]/90 text-[#8B0000] shadow-glow hover:scale-105 transition-transform font-sans'']
             [Element ''Mail'' [ClassName ''w-4 h-4 mr-2''] [], Text ''Send Email''],
           Element ''Button''
             [OnClick HandleScheduleMeeting,
              ClassName ''bg-white/20 hover:bg-white/30 text-white border border-white/30 shadow-glow hover:scale-105 transition-transform font-sans'']
             [Element ''Calendar'' [ClassName ''w-4 h-4 mr-2''] [], Text ''Schedule Meeting'']]]"

section \<open>The chat-message renderer\<close>

datatype role = AI | Attorney | System

datatype status = Status_pending | Status_approved | Status_rejected | Status_modified

text \<open>The string each status is in the source.\<close>

fun status_string :: "status \<Rightarrow> string" where
  "status_string Status_pending = ''pending''"
| "status_string Status_approved = ''approved''"
| "status_string Status_rejected = ''rejected''"
| "status_string Status_modified = ''modified''"

datatype action = Approve | Modify | Reject

text \<open>A \<^verbatim>\<open>Date\<close>: its time value in milliseconds, or an invalid date.\<close>

datatype Date = Date int | Invalid_Date

record Message =
  id' :: string
  role :: role
  content :: string
  timestamp :: Date
  agentName :: "string option"
  confidence :: "number option"
  requiresApproval :: "bool option"
  status :: "status option"

text \<open>
  The callback changes the world of the parent component, whatever that is:
  \<open>'w\<close> is the parent's state.
\<close>

record 'w ChatInterfaceProps =
  messages :: "Message list"
  onMessageAction :: "(string \<Rightarrow> action \<Rightarrow> 'w \<Rightarrow> 'w) option"

text \<open>\<^verbatim>\<open>handleAction\<close> (lines 24 to 26): the optional call \<^verbatim>\<open>onMessageAction?.(...)\<close>.\<close>

definition handleAction ::
  "'w ChatInterfaceProps \<Rightarrow> string \<Rightarrow> action \<Rightarrow> 'w \<Rightarrow> 'w" where
  "handleAction props messageId action w =
     (case onMessageAction props of None \<Rightarrow> w | Some f \<Rightarrow> f messageId action w)"

text \<open>An \<^verbatim>\<open>onClick\<close> closure of the renderer, \<^verbatim>\<open>() => handleAction(message.id, a)\<close>,
  and what clicking it does.\<close>

datatype chat_handler = HandleAction string action

fun click :: "'w ChatInterfaceProps \<Rightarrow> chat_handler \<Rightarrow> 'w \<Rightarrow> 'w" where
  "click props (HandleAction messageId action) w = handleAction props messageId action w"

text \<open>\<^verbatim>\<open>String.prototype.toUpperCase\<close> on ASCII text.\<close>

definition toUpperCase :: "string \<Rightarrow> string" where
  "toUpperCase s =
     map (\<lambda>c. let n = (of_char c :: nat)
               in if 97 \<le> n \<and> n \<le> 122 then char_of (n - 32) else c) s"

text \<open>
  A child \<^verbatim>\<open>{c && e}\<close> whose condition is falsy renders nothing: it contributes no
  node. The two calls into the JavaScript runtime are parameters of the renderer:
  \<open>pct c\<close> is the text of \<^verbatim>\<open>Math.round(c * 100)\<close> and \<open>tls d\<close> is
  \<^verbatim>\<open>d.toLocaleTimeString()\<close>, which formats in the locale and time zone of the host.
\<close>

text \<open>The avatar (lines 40 to 52).\<close>

definition avatar :: "Message \<Rightarrow> chat_handler vnode" where
  "avatar message =
     Element ''div''
       [ClassName (''flex-shrink-0 w-10 h-10 rounded-full flex items-center justify-center shadow-lg '' @
          (if role message = AI then ''bg-[#D71920]''
           else if role message = System then ''bg-[#8B0000]'' else ''bg-[#FFD700]''))]
       [if role message = AI then Element ''Bot'' [ClassName ''w-5 h-5 text-white''] []
        else if role message = System then Element ''Bot'' [ClassName ''w-5 h-5 text-[#FFD700]''] []
        else Element ''User'' [ClassName ''w-5 h-5 text-[#8B0000]''] []]"

text \<open>The agent header (lines 64 to 73).\<close>

definition agent_header :: "(number \<Rightarrow> string) \<Rightarrow> Message \<Rightarrow> chat_handler vnode list" where
  "agent_header pct message =
     (case agentName message of
        None \<Rightarrow> []
      | Some name \<Rightarrow>
          if name = [] then []
          else
            [Element ''div'' [ClassName ''flex items-center gap-2 mb-2 pb-2 border-b border-gray-300'']
               (Element ''span'' [ClassName ''font-serif font-bold text-xs uppercase tracking-wider'']
                  [Text name] #
                (case confidence message of
                   None \<Rightarrow> []
                 | Some c \<Rightarrow>
                     [Element ''span''
                        [ClassName ''text-xs bg-[#D71920] text-white px-2 py-0.5 rounded-full font-sans'']
                        [Text (pct c), Text ''%'']]))])"

text \<open>The bubble (lines 55 to 87).\<close>

definition bubble ::
  "(number \<Rightarrow> string) \<Rightarrow> (Date \<Rightarrow> string) \<Rightarrow> Message \<Rightarrow> chat_handler vnode" where
  "bubble pct tls message =
     Element ''div''
       [ClassName (''inline-block rounded-2xl px-5 py-3 shadow-glow '' @
          (if role message = AI then ''bg-[#FFF8DC] text-gray-900''
           else if role message = System
             then ''bg-[#8B0000]/20 border-2 border-[#FFD700]/50 text-white backdrop-blur-sm''
           else ''bg-[#FFD700] text-[#8B0000]''))]
       (agent_header pct message @
        [Element ''p'' [ClassName ''text-sm leading-relaxed font-sans whitespace-pre-line'']
           [Text (content message)],
         Element ''p''
           [ClassName (''text-xs mt-2 font-sans '' @
              (if role message = AI then ''text-gray-600''
               else if role message = System then ''text-[#FFD700]/80''
               else ''text-[#8B0000]/70''))]
           [Text (tls (timestamp message))]])"

text \<open>The approve, modify and reject buttons (lines 89 to 116).\<close>

definition approval_buttons :: "Message \<Rightarrow> chat_handler vnode list" where
  "approval_buttons message =
     (if requiresApproval message = Some True \<and> Message.status message = Some Status_pending
      then
        [Element ''motion.div''
           [Initial [(''opacity'', 0), (''y'', 10)],
            Animate [(''opacity'', 1), (''y'', 0)],
            ClassName ''mt-3 flex gap-2'']
           [Element ''Button''
              [Size ''sm'',
               OnClick (HandleAction (id' message) Approve),
               ClassName ''bg-green-600 hover:bg-green-700 text-white shadow-glow hover:scale-105 transition-transform'']
              [Element ''CheckCircle'' [ClassName ''w-4 h-4 mr-1''] [], Text ''Approve''],
            Element ''Button''
              [Size ''sm'',
               OnClick (HandleAction (id' message) Modify),
               ClassName ''bg-[#FFD700] hover:bg-[#FFD700]/90 text-[#8B0000] shadow-glow hover:scale-105 transition-transform'']
              [Element ''Edit'' [ClassName ''w-4 h-4 mr-1''] [], Text ''Modify''],
            Element ''Button''
              [Size ''sm'',
               OnClick (HandleAction (id' message) Reject),
               ClassName ''bg-red-600 hover:bg-red-700 text-white shadow-glow hover:scale-105 transition-transform'']
              [Element ''XCircle'' [ClassName ''w-4 h-4 mr-1''] [], Text ''Reject'']]]
      else [])"

text \<open>The status badge (lines 118 to 132). Each of the four status strings is
  non-empty, so \<^verbatim>\<open>message.status &&\<close> tests that the field is there.\<close>

definition status_badge :: "Message \<Rightarrow> chat_handler vnode list" where
  "status_badge message =
     (case Message.status message of
        None \<Rightarrow> []
      | Some s \<Rightarrow>
          if status_string s \<noteq> ''pending''
          then
            [Element ''motion.div''
               [Initial [(''opacity'', 0), (''scale'', 9 / 10)],
                Animate [(''opacity'', 1), (''scale'', 1)],
                ClassName ''mt-2'']
               [Element ''span''
                  [ClassName (''inline-block text-xs px-3 py-1 rounded-full font-sans font-semibold '' @
                     (if status_string s = ''approved'' then ''bg-green-600 text-white''
                      else if status_string s = ''rejected'' then ''bg-red-600 text-white''
                      else ''bg-[#FFD700] text-[#8B0000]''))]
                  [Text (toUpperCase (status_string s))]]]
          else [])"

text \<open>One message of the list (lines 32 to 134), at its index.\<close>

definition message_row ::
  "(number \<Rightarrow> string) \<Rightarrow> (Date \<Rightarrow> string) \<Rightarrow> nat \<Rightarrow> Message \<Rightarrow> chat_handler vnode" where
  "message_row pct tls index message =
     Element ''motion.div''
       [Key (id' message),
        Initial [(''opacity'', 0), (''x'', if role message = Attorney then 20 else - 20)],
        Animate [(''opacity'', 1), (''x'', 0)],
        Exit [(''opacity'', 0)],
        Transition [(''duration'', 4 / 10), (''delay'', real index * (1 / 10))],
        ClassName (''flex gap-3 '' @ (if role message = Attorney then ''flex-row-reverse'' else []))]
       [avatar message,
        Element ''div''
          [ClassName (''flex-1 max-w-[75%] '' @ (if role message = Attorney then ''text-right'' else []))]
          (bubble pct tls message # approval_buttons message @ status_badge message)]"

text \<open>The placeholder of an empty list (lines 138 to 143).\<close>

definition placeholder :: "chat_handler vnode" where
  "placeholder =
     Element ''div'' [ClassName ''text-center py-16 text-white/60'']
       [Element ''Bot'' [ClassName ''w-20 h-20 mx-auto mb-4 opacity-30''] [],
        Element ''p'' [ClassName ''font-sans text-lg''] [Text ''Awaiting case file upload...'']]"

text \<open>The tree \<^verbatim>\<open>ChatInterface\<close> returns (lines 28 to 145).\<close>

definition ChatInterface ::
  "(number \<Rightarrow> string) \<Rightarrow> (Date \<Rightarrow> string) \<Rightarrow> 'w ChatInterfaceProps \<Rightarrow> chat_handler vnode" where
  "ChatInterface pct tls props =
     Element ''div'' [ClassName ''space-y-4'']
       (Element ''AnimatePresence'' []
          (map (\<lambda>(index, message). message_row pct tls index message)
             (List.enumerate 0 (messages props))) #
        (if length (messages props) = 0 then [placeholder] else []))"

section \<open>Sample inputs\<close>

definition sample_metadata :: ContextMetadata where
  "sample_metadata = \<lparr>client_name = Some ''Ada Lovelace'', phone = None\<rparr>"

definition offline_host :: host where
  "offline_host =
     \<lparr>NEXT_PUBLIC_API_URL = None,
      fetch_result = (\<lambda>req. Rejected (Error ''Failed to fetch'')),
      null_read_message = ''Cannot read properties of null''\<rparr>"

definition failing_host :: host where
  "failing_host =
     \<lparr>NEXT_PUBLIC_API_URL = Some [],
      fetch_result =
        (\<lambda>req. Fulfilled \<lparr>ok = False, status = 503, json = Rejected (Error ''Unexpected token'')\<rparr>),
      null_read_message = ''Cannot read properties of null''\<rparr>"

definition working_host :: host where
  "working_host =
     \<lparr>NEXT_PUBLIC_API_URL = Some ''https://api.example.test'',
      fetch_result =
        (\<lambda>req. Fulfilled
           \<lparr>ok = True, status = 200,
            json = Fulfilled (JObject [(''message'', JString ''Dialing'')])\<rparr>),
      null_read_message = ''Cannot read properties of null''\<rparr>"

definition hanging_host :: host where
  "hanging_host =
     \<lparr>NEXT_PUBLIC_API_URL = None,
      fetch_result = (\<lambda>req. Never_settles),
      null_read_message = ''Cannot read properties of null''\<rparr>"

definition sample_message :: Message where
  "sample_message =
     \<lparr>id' = ''m1'', role = AI, content = ''Draft ready'', timestamp = Date 0,
      agentName = None, confidence = None, requiresApproval = None, status = None\<rparr>"

definition pending_message :: Message where
  "pending_message =
     \<lparr>id' = ''m2'', role = AI, content = ''File the motion?'', timestamp = Date 0,
      agentName = Some ''Drafting Agent'', confidence = Some (Finite (87 / 100)),
      requiresApproval = Some True, status = Some Status_pending\<rparr>"

definition approved_message :: Message where
  "approved_message =
     \<lparr>id' = ''m3'', role = System, content = ''Motion filed'', timestamp = Date 0,
      agentName = None, confidence = None,
      requiresApproval = Some True, status = Some Status_approved\<rparr>"


text \<open>A callback that appends each call to a list of calls.\<close>

definition record_call ::
  "string \<Rightarrow> action \<Rightarrow> (string \<times> action) list \<Rightarrow> (string \<times> action) list" where
  "record_call messageId action calls = calls @ [(messageId, action)]"

text \<open>Two hosts' \<^verbatim>\<open>toLocaleTimeString\<close>, both in UTC: a 24-hour clock and a 12-hour clock.\<close>

definition two_digits :: "nat \<Rightarrow> string" where
  "two_digits n = (if n < 10 then ''0'' @ decimal n else decimal n)"

definition clock_24h :: "Date \<Rightarrow> string" where
  "clock_24h d =
     (case d of
        Invalid_Date \<Rightarrow> ''Invalid Date''
      | Date t \<Rightarrow>
          (let s = nat ((t div 1000) mod 86400)
           in two_digits (s div 3600) @ '':'' @ two_digits (s div 60 mod 60) @ '':'' @
              two_digits (s mod 60)))"


text \<open>A \<^verbatim>\<open>pct\<close> for lists without a confidence.\<close>

definition no_percent :: "number \<Rightarrow> string" where
  "no_percent c = []"

section \<open>Properties of the action toolbar\<close>

lemma events_simps:
  "events (setIsLoading b w) = events w @ [SetIsLoading b]"
  "events (toast t w) = events w @ [Toast t]"
  "events (console_error s e w) = events w @ [Console_error s e]"
  "isLoading (setIsLoading b w) = b"
  "isLoading (toast t w) = isLoading w"
  "isLoading (console_error s e w) = isLoading w"
  by (simp_all add: setIsLoading_def toast_def console_error_def)

text \<open>
  Claim C6. When \<^verbatim>\<open>metadata\<close> is null, or its \<^verbatim>\<open>client_name\<close> is missing or empty,
  \<^verbatim>\<open>handleCallClient\<close> shows the destructive toast ``Missing Information'' and returns:
  the log gains that toast and nothing else, so no request is issued and \<^verbatim>\<open>isLoading\<close>
  is never set; the component state is the one before the call.
\<close>

theorem handleCallClient_missing_information:
  assumes "metadata = None \<or>
    (\<exists>md. metadata = Some md \<and> (client_name md = None \<or> client_name md = Some []))"
  shows "handleCallClient metadata h w =
      (Fulfilled (),
       w\<lparr>events := events w @
          [Toast \<lparr>title = ''Missing Information'',
                  description = JString ''Client information not available'',
                  variant = Some ''destructive''\<rparr>]\<rparr>)
    \<and> isLoading (snd (handleCallClient metadata h w)) = isLoading w
    \<and> filter is_Fetch (events (snd (handleCallClient metadata h w))) = filter is_Fetch (events w)
    \<and> filter is_SetIsLoading (events (snd (handleCallClient metadata h w))) =
        filter is_SetIsLoading (events w)"
  using assms
  by (auto simp: handleCallClient_def missing_information_def toast_def)

theorem handleCallClient_missing_information_witness:
  "handleCallClient None
      \<lparr>NEXT_PUBLIC_API_URL = None,
       fetch_result = (\<lambda>req. Rejected (Error ''Failed to fetch'')),
       null_read_message = ''''\<rparr> initial_world =
     (Fulfilled (),
      \<lparr>isLoading = False,
       events = [Toast \<lparr>title = ''Missing Information'',
                  description = JString ''Client information not available'',
                  variant = Some ''destructive''\<rparr>]\<rparr>)
   \<and> handleCallClient (Some \<lparr>client_name = Some [], phone = Some ''555-0199''\<rparr>)
      \<lparr>NEXT_PUBLIC_API_URL = None,
       fetch_result = (\<lambda>req. Rejected (Error ''Failed to fetch'')),
       null_read_message = ''''\<rparr> initial_world =
     (Fulfilled (),
      \<lparr>isLoading = False,
       events = [Toast \<lparr>title = ''Missing Information'',
                  description = JString ''Client information not available'',
                  variant = Some ''destructive''\<rparr>]\<rparr>)"
  using handleCallClient_missing_information
          [of None "\<lparr>NEXT_PUBLIC_API_URL = None,
       fetch_result = (\<lambda>req. Rejected (Error ''Failed to fetch'')),
       null_read_message = ''''\<rparr>" initial_world]
        handleCallClient_missing_information
          [of "Some \<lparr>client_name = Some [], phone = Some ''555-0199''\<rparr>" "\<lparr>NEXT_PUBLIC_API_URL = None,
       fetch_result = (\<lambda>req. Rejected (Error ''Failed to fetch'')),
       null_read_message = ''''\<rparr>" initial_world]
  by (simp add: initial_world_def)

text \<open>
  Claim C5. \<^verbatim>\<open>handleSendEmail\<close> and \<^verbatim>\<open>handleScheduleMeeting\<close> are stubs: each
  invocation adds exactly one toast (``Email Draft Created'', ``Calendar Opened'') to the
  log, issues no request, and leaves the component state, hence the rendered toolbar,
  as it was.
\<close>

theorem stub_handlers_only_toast:
  "handleSendEmail w =
     w\<lparr>events := events w @
        [Toast \<lparr>title = ''Email Draft Created'',
                description = JString ''Opening email client...'',
                variant = None\<rparr>]\<rparr>
   \<and> handleScheduleMeeting w =
     w\<lparr>events := events w @
        [Toast \<lparr>title = ''Calendar Opened'',
                description = JString ''Select a meeting time...'',
                variant = None\<rparr>]\<rparr>
   \<and> isLoading (handleSendEmail w) = isLoading w
   \<and> isLoading (handleScheduleMeeting w) = isLoading w
   \<and> filter is_Fetch (events (handleSendEmail w)) = filter is_Fetch (events w)
   \<and> filter is_Fetch (events (handleScheduleMeeting w)) = filter is_Fetch (events w)
   \<and> ActionToolbar metadata (handleSendEmail w) = ActionToolbar metadata w
   \<and> ActionToolbar metadata (handleScheduleMeeting w) = ActionToolbar metadata w"
  by (simp add: handleSendEmail_def handleScheduleMeeting_def toast_def ActionToolbar_def)

theorem stub_handlers_only_toast_witness:
  "handleSendEmail initial_world =
     \<lparr>isLoading = False,
      events = [Toast \<lparr>title = ''Email Draft Created'',
                       description = JString ''Opening email client...'',
                       variant = None\<rparr>]\<rparr>
   \<and> handleScheduleMeeting initial_world =
     \<lparr>isLoading = False,
      events = [Toast \<lparr>title = ''Calendar Opened'',
                       description = JString ''Select a meeting time...'',
                       variant = None\<rparr>]\<rparr>"
  using stub_handlers_only_toast [of initial_world None]
  by (simp add: initial_world_def)

text \<open>
  Claim C1. With a non-empty \<^verbatim>\<open>client_name\<close>, one run of \<^verbatim>\<open>handleCallClient\<close> issues
  exactly one request: a POST to \<^verbatim>\<open>/call_client\<close> under the configured base URL, with
  the JSON content type and a body of the three fields \<^verbatim>\<open>client_name\<close>, \<^verbatim>\<open>phone\<close> and
  \<^verbatim>\<open>reason\<close>. This holds however the request ends.
\<close>

theorem handleCallClient_one_post:
  assumes "client_name md = Some name" and "name \<noteq> []"
  shows "filter is_Fetch (events (snd (handleCallClient (Some md) h w))) =
     filter is_Fetch (events w) @
     [Fetch \<lparr>url = or_default (NEXT_PUBLIC_API_URL h) ''http://localhost:8000'' @ ''/call_client'',
             request_method = ''POST'',
             headers = [(''Content-Type'', ''application/json'')],
             body = JObject
               [(''client_name'', JString name),
                (''phone'', JString (or_default (phone md) ''555-0100'')),
                (''reason'', JString ''Case review follow-up'')]\<rparr>]"
  using assms
  by (simp add: handleCallClient_def call_try_def call_catch_def fetch_def call_request_def
      events_simps Let_def split: promise.split sum.split)

theorem handleCallClient_one_post_witness:
  "client_name sample_metadata = Some ''Ada Lovelace'' \<and> ''Ada Lovelace'' \<noteq> [] \<and>
   filter is_Fetch (events (snd (handleCallClient (Some sample_metadata) working_host initial_world))) =
     [Fetch \<lparr>url = ''https://api.example.test/call_client'',
             request_method = ''POST'',
             headers = [(''Content-Type'', ''application/json'')],
             body = JObject
               [(''client_name'', JString ''Ada Lovelace''),
                (''phone'', JString ''555-0100''),
                (''reason'', JString ''Case review follow-up'')]\<rparr>]"
  using handleCallClient_one_post [of sample_metadata "''Ada Lovelace''" working_host initial_world]
  by (simp add: sample_metadata_def working_host_def initial_world_def or_default_def)

lemma decimal_503: "decimal 503 = ''503''"
  by code_simp

text \<open>
  Claim C3. When \<^verbatim>\<open>fetch\<close> rejects, or the response is not ok, the handler catches
  the error: it logs it to the console, shows the destructive toast ``Call Failed'' with
  the error's message, resets \<^verbatim>\<open>isLoading\<close> and returns normally. The promise of the
  handler never rejects, whatever the host does.
\<close>

theorem handleCallClient_catches:
  assumes "client_name md = Some name" and "name \<noteq> []"
  shows "(fetch_result h (call_request md name h) = Rejected e \<longrightarrow>
      handleCallClient (Some md) h w =
        (Fulfilled (),
         w\<lparr>isLoading := False,
           events := events w @
             [SetIsLoading True,
              Fetch (call_request md name h),
              Console_error ''[v0] Call error:'' e,
              Toast \<lparr>title = ''Call Failed'',
                     description =
                       JString (case e of Error msg \<Rightarrow> msg | Non_Error v \<Rightarrow> ''Unknown error''),
                     variant = Some ''destructive''\<rparr>,
              SetIsLoading False]\<rparr>))
   \<and> (fetch_result h (call_request md name h) = Fulfilled resp \<and> \<not> ok resp \<longrightarrow>
      handleCallClient (Some md) h w =
        (Fulfilled (),
         w\<lparr>isLoading := False,
           events := events w @
             [SetIsLoading True,
              Fetch (call_request md name h),
              Console_error ''[v0] Call error:''
                (Error (''API error: '' @ decimal (response.status resp))),
              Toast \<lparr>title = ''Call Failed'',
                     description = JString (''API error: '' @ decimal (response.status resp)),
                     variant = Some ''destructive''\<rparr>,
              SetIsLoading False]\<rparr>))
   \<and> (\<forall>x. fst (handleCallClient (Some md) h w) \<noteq> Rejected x)"
  using assms
  by (simp add: handleCallClient_def call_try_def call_catch_def fetch_def
      setIsLoading_def toast_def console_error_def Let_def split: promise.split sum.split)

theorem handleCallClient_catches_witness:
  "handleCallClient (Some sample_metadata) offline_host initial_world =
     (Fulfilled (),
      \<lparr>isLoading = False,
       events =
         [SetIsLoading True,
          Fetch (call_request sample_metadata ''Ada Lovelace'' offline_host),
          Console_error ''[v0] Call error:'' (Error ''Failed to fetch''),
          Toast \<lparr>title = ''Call Failed'',
                 description = JString ''Failed to fetch'',
                 variant = Some ''destructive''\<rparr>,
          SetIsLoading False]\<rparr>)
   \<and> handleCallClient (Some sample_metadata) failing_host initial_world =
     (Fulfilled (),
      \<lparr>isLoading = False,
       events =
         [SetIsLoading True,
          Fetch (call_request sample_metadata ''Ada Lovelace'' failing_host),
          Console_error ''[v0] Call error:'' (Error ''API error: 503''),
          Toast \<lparr>title = ''Call Failed'',
                 description = JString ''API error: 503'',
                 variant = Some ''destructive''\<rparr>,
          SetIsLoading False]\<rparr>)"
  using handleCallClient_catches
          [where md = sample_metadata and name = "''Ada Lovelace''" and h = offline_host
             and e = "Error ''Failed to fetch''" and w = initial_world]
        handleCallClient_catches
          [where md = sample_metadata and name = "''Ada Lovelace''" and h = failing_host
             and resp = "\<lparr>ok = False, status = 503, json = Rejected (Error ''Unexpected token'')\<rparr>"
             and w = initial_world]
  by (simp add: sample_metadata_def offline_host_def failing_host_def initial_world_def decimal_503)

lemma toolbar_buttons_disabled:
  "map disabled (elements ''Button'' (ActionToolbar metadata w)) = [isLoading w, False, False]"
  by (simp add: ActionToolbar_def disabled_def)

lemma toolbar_buttons_onClicks:
  "map onClicks (elements ''Button'' (ActionToolbar metadata w)) =
     [[HandleCallClient], [HandleSendEmail], [HandleScheduleMeeting]]"
  by (simp add: ActionToolbar_def)

lemma handleCallClient_named:
  assumes "client_name md = Some name" and "name \<noteq> []"
  shows "handleCallClient (Some md) h w =
     (case call_try md name h (setIsLoading True w) of
        (Never_settles, w2) \<Rightarrow> (Never_settles, w2)
      | (Rejected e, w2) \<Rightarrow> (Fulfilled (), setIsLoading False (call_catch e w2))
      | (Fulfilled u, w2) \<Rightarrow> (Fulfilled (), setIsLoading False w2))"
  using assms by (simp add: handleCallClient_def Let_def)

lemma call_try_never:
  "fetch_result h (call_request md name h) = Never_settles \<Longrightarrow>
   call_try md name h w = (Never_settles, w\<lparr>events := events w @ [Fetch (call_request md name h)]\<rparr>)"
  by (simp add: call_try_def fetch_def)

lemma call_try_rejected:
  "fetch_result h (call_request md name h) = Rejected e \<Longrightarrow>
   call_try md name h w = (Rejected e, w\<lparr>events := events w @ [Fetch (call_request md name h)]\<rparr>)"
  by (simp add: call_try_def fetch_def)

lemma call_try_not_ok:
  "fetch_result h (call_request md name h) = Fulfilled resp \<Longrightarrow> \<not> ok resp \<Longrightarrow>
   call_try md name h w =
     (Rejected (Error (''API error: '' @ decimal (response.status resp))),
      w\<lparr>events := events w @ [Fetch (call_request md name h)]\<rparr>)"
  by (simp add: call_try_def fetch_def)

lemma call_try_json_never:
  "fetch_result h (call_request md name h) = Fulfilled resp \<Longrightarrow> ok resp \<Longrightarrow>
   json resp = Never_settles \<Longrightarrow>
   call_try md name h w = (Never_settles, w\<lparr>events := events w @ [Fetch (call_request md name h)]\<rparr>)"
  by (simp add: call_try_def fetch_def)

lemma call_try_json_rejected:
  "fetch_result h (call_request md name h) = Fulfilled resp \<Longrightarrow> ok resp \<Longrightarrow>
   json resp = Rejected e \<Longrightarrow>
   call_try md name h w = (Rejected e, w\<lparr>events := events w @ [Fetch (call_request md name h)]\<rparr>)"
  by (simp add: call_try_def fetch_def)

lemma call_try_no_message:
  "fetch_result h (call_request md name h) = Fulfilled resp \<Longrightarrow> ok resp \<Longrightarrow>
   json resp = Fulfilled data \<Longrightarrow> get_message h data = Inl e \<Longrightarrow>
   call_try md name h w = (Rejected e, w\<lparr>events := events w @ [Fetch (call_request md name h)]\<rparr>)"
  by (simp add: call_try_def fetch_def)

lemma call_try_success:
  "fetch_result h (call_request md name h) = Fulfilled resp \<Longrightarrow> ok resp \<Longrightarrow>
   json resp = Fulfilled data \<Longrightarrow> get_message h data = Inr m \<Longrightarrow>
   call_try md name h w =
     (Fulfilled (),
      w\<lparr>events := events w @
         [Fetch (call_request md name h),
          Toast \<lparr>title = ''Call Initiated'',
                 description = (if truthy m then m else JString (''Calling '' @ name @ ''...'')),
                 variant = None\<rparr>]\<rparr>)"
  by (simp add: call_try_def fetch_def toast_def)

text \<open>
  Claim C4. A run of \<^verbatim>\<open>handleCallClient\<close> that passes the \<^verbatim>\<open>client_name\<close> guard sets
  \<^verbatim>\<open>isLoading\<close> to true and then issues the request, and nothing after that is a
  request. The run fails to complete exactly when \<^verbatim>\<open>fetch\<close> or \<^verbatim>\<open>response.json()\<close>
  never settles, and \<^verbatim>\<open>isLoading\<close> then stays true. Every other run (success, non-ok
  response, any thrown error) ends by resetting \<^verbatim>\<open>isLoading\<close> to false, once. The
  Call Client button is disabled exactly when \<^verbatim>\<open>isLoading\<close> is true; the other two
  buttons never are.
\<close>

theorem isLoading_brackets_the_call:
  assumes "client_name md = Some name" and "name \<noteq> []"
  shows "\<exists>rest.
      events (snd (handleCallClient (Some md) h w)) =
        events w @ SetIsLoading True # Fetch (call_request md name h) # rest
    \<and> (\<forall>e \<in> set rest. \<not> is_Fetch e)
    \<and> (fst (handleCallClient (Some md) h w) = Never_settles \<longleftrightarrow>
         fetch_result h (call_request md name h) = Never_settles
         \<or> (\<exists>resp. fetch_result h (call_request md name h) = Fulfilled resp
               \<and> ok resp \<and> json resp = Never_settles))
    \<and> (fst (handleCallClient (Some md) h w) \<noteq> Never_settles \<longrightarrow>
         isLoading (snd (handleCallClient (Some md) h w)) = False
         \<and> filter is_SetIsLoading rest = [SetIsLoading False]
         \<and> last rest = SetIsLoading False)
    \<and> (fst (handleCallClient (Some md) h w) = Never_settles \<longrightarrow>
         isLoading (snd (handleCallClient (Some md) h w)) = True \<and> rest = [])
    \<and> map disabled (elements ''Button'' (ActionToolbar (Some md) (snd (handleCallClient (Some md) h w)))) =
         [isLoading (snd (handleCallClient (Some md) h w)), False, False]
    \<and> map onClicks (elements ''Button'' (ActionToolbar (Some md) (snd (handleCallClient (Some md) h w)))) =
         [[HandleCallClient], [HandleSendEmail], [HandleScheduleMeeting]]"
proof -
  note run = handleCallClient_named [OF assms, of h w]
  note defs = setIsLoading_def call_catch_def toast_def console_error_def
    toolbar_buttons_disabled toolbar_buttons_onClicks
  show ?thesis
  proof (cases "fetch_result h (call_request md name h)")
    case Never_settles
    then show ?thesis
      by (intro exI [of _ "[]"]) (simp add: run call_try_never defs)
  next
    case (Rejected e)
    then show ?thesis
      by (intro exI [of _ "[Console_error ''[v0] Call error:'' e,
            Toast \<lparr>title = ''Call Failed'',
                   description = JString (case e of Error msg \<Rightarrow> msg | Non_Error v \<Rightarrow> ''Unknown error''),
                   variant = Some ''destructive''\<rparr>,
            SetIsLoading False]"])
        (simp add: run call_try_rejected defs)
  next
    case (Fulfilled resp)
    show ?thesis
    proof (cases "ok resp")
      case False
      with Fulfilled show ?thesis
        by (intro exI [of _ "[Console_error ''[v0] Call error:''
                (Error (''API error: '' @ decimal (response.status resp))),
              Toast \<lparr>title = ''Call Failed'',
                     description = JString (''API error: '' @ decimal (response.status resp)),
                     variant = Some ''destructive''\<rparr>,
              SetIsLoading False]"])
          (simp add: run call_try_not_ok defs)
    next
      case True
      show ?thesis
      proof (cases "json resp")
        case Never_settles
        with Fulfilled True show ?thesis
          by (intro exI [of _ "[]"]) (simp add: run call_try_json_never defs)
      next
        case (Rejected e)
        with Fulfilled True show ?thesis
          by (intro exI [of _ "[Console_error ''[v0] Call error:'' e,
                Toast \<lparr>title = ''Call Failed'',
                       description = JString (case e of Error msg \<Rightarrow> msg | Non_Error v \<Rightarrow> ''Unknown error''),
                       variant = Some ''destructive''\<rparr>,
                SetIsLoading False]"])
            (simp add: run call_try_json_rejected defs)
      next
        case data: (Fulfilled data)
        show ?thesis
        proof (cases "get_message h data")
          case (Inl e)
          with Fulfilled True data show ?thesis
            by (intro exI [of _ "[Console_error ''[v0] Call error:'' e,
                  Toast \<lparr>title = ''Call Failed'',
                         description = JString (case e of Error msg \<Rightarrow> msg | Non_Error v \<Rightarrow> ''Unknown error''),
                         variant = Some ''destructive''\<rparr>,
                  SetIsLoading False]"])
              (simp add: run call_try_no_message defs)
        next
          case (Inr m)
          with Fulfilled True data show ?thesis
            by (intro exI [of _ "[Toast \<lparr>title = ''Call Initiated'',
                     description = (if truthy m then m else JString (''Calling '' @ name @ ''...'')),
                     variant = None\<rparr>,
                  SetIsLoading False]"])
              (simp add: run call_try_success defs)
        qed
      qed
    qed
  qed
qed

theorem isLoading_brackets_the_call_witness:
  "isLoading (snd (handleCallClient (Some sample_metadata) working_host initial_world)) = False
   \<and> take 2 (events (snd (handleCallClient (Some sample_metadata) working_host initial_world))) =
       [SetIsLoading True, Fetch (call_request sample_metadata ''Ada Lovelace'' working_host)]
   \<and> last (events (snd (handleCallClient (Some sample_metadata) working_host initial_world))) =
       SetIsLoading False
   \<and> isLoading (snd (handleCallClient (Some sample_metadata) hanging_host initial_world)) = True
   \<and> map disabled (elements ''Button'' (ActionToolbar (Some sample_metadata)
         (snd (handleCallClient (Some sample_metadata) hanging_host initial_world)))) =
       [True, False, False]"
proof -
  have name: "client_name sample_metadata = Some ''Ada Lovelace''" "''Ada Lovelace'' \<noteq> []"
    by (simp_all add: sample_metadata_def)
  have settles: "fetch_result working_host (call_request sample_metadata ''Ada Lovelace'' working_host)
      = Fulfilled \<lparr>ok = True, status = 200,
            json = Fulfilled (JObject [(''message'', JString ''Dialing'')])\<rparr>"
    by (simp add: working_host_def)
  have hangs: "fetch_result hanging_host (call_request sample_metadata ''Ada Lovelace'' hanging_host)
      = Never_settles"
    by (simp add: hanging_host_def)
  from isLoading_brackets_the_call [OF name, of working_host initial_world]
  have a: "isLoading (snd (handleCallClient (Some sample_metadata) working_host initial_world)) = False
   \<and> take 2 (events (snd (handleCallClient (Some sample_metadata) working_host initial_world))) =
       [SetIsLoading True, Fetch (call_request sample_metadata ''Ada Lovelace'' working_host)]
   \<and> last (events (snd (handleCallClient (Some sample_metadata) working_host initial_world))) =
       SetIsLoading False"
    by (auto simp: settles initial_world_def)
  from isLoading_brackets_the_call [OF name, of hanging_host initial_world]
  have b: "isLoading (snd (handleCallClient (Some sample_metadata) hanging_host initial_world)) = True
   \<and> map disabled (elements ''Button'' (ActionToolbar (Some sample_metadata)
         (snd (handleCallClient (Some sample_metadata) hanging_host initial_world)))) =
       [True, False, False]"
    by (auto simp: hangs)
  from a b show ?thesis by simp
qed

lemma fetch_is_logged:
  assumes "client_name md = Some name" and "name \<noteq> []"
  shows "Fetch (call_request md name h) \<in> set (events (snd (handleCallClient (Some md) h w)))"
  using assms
  by (simp add: handleCallClient_def call_try_def call_catch_def fetch_def
      events_simps Let_def split: promise.split sum.split)

text \<open>
  Claim C8. In the request \<^verbatim>\<open>handleCallClient\<close> issues, \<^verbatim>\<open>phone\<close> is ``555-0100''
  when \<^verbatim>\<open>metadata.phone\<close> is missing or empty and \<^verbatim>\<open>metadata.phone\<close> otherwise,
  \<^verbatim>\<open>reason\<close> is always ``Case review follow-up'', and the base URL is
  ``http://localhost:8000'' when \<^verbatim>\<open>NEXT_PUBLIC_API_URL\<close> is unset or empty and that
  variable otherwise.
\<close>

theorem call_request_defaults:
  assumes "client_name md = Some name" and "name \<noteq> []"
  shows "Fetch (call_request md name h) \<in> set (events (snd (handleCallClient (Some md) h w)))
    \<and> body (call_request md name h) =
        JObject
          [(''client_name'', JString name),
           (''phone'', JString (if phone md = None \<or> phone md = Some [] then ''555-0100''
                                else the (phone md))),
           (''reason'', JString ''Case review follow-up'')]
    \<and> url (call_request md name h) =
        (if NEXT_PUBLIC_API_URL h = None \<or> NEXT_PUBLIC_API_URL h = Some []
         then ''http://localhost:8000'' else the (NEXT_PUBLIC_API_URL h)) @ ''/call_client''"
proof (intro conjI)
  show "Fetch (call_request md name h) \<in> set (events (snd (handleCallClient (Some md) h w)))"
    by (rule fetch_is_logged [OF assms])
  show "body (call_request md name h) =
        JObject
          [(''client_name'', JString name),
           (''phone'', JString (if phone md = None \<or> phone md = Some [] then ''555-0100''
                                else the (phone md))),
           (''reason'', JString ''Case review follow-up'')]"
    by (cases "phone md") (simp_all add: call_request_def or_default_def)
  show "url (call_request md name h) =
        (if NEXT_PUBLIC_API_URL h = None \<or> NEXT_PUBLIC_API_URL h = Some []
         then ''http://localhost:8000'' else the (NEXT_PUBLIC_API_URL h)) @ ''/call_client''"
    by (cases "NEXT_PUBLIC_API_URL h") (simp_all add: call_request_def or_default_def)
qed

theorem call_request_defaults_witness:
  "Fetch (call_request sample_metadata ''Ada Lovelace'' failing_host)
      \<in> set (events (snd (handleCallClient (Some sample_metadata) failing_host initial_world)))
   \<and> call_request sample_metadata ''Ada Lovelace'' failing_host =
     \<lparr>url = ''http://localhost:8000/call_client'',
      request_method = ''POST'',
      headers = [(''Content-Type'', ''application/json'')],
      body = JObject
        [(''client_name'', JString ''Ada Lovelace''),
         (''phone'', JString ''555-0100''),
         (''reason'', JString ''Case review follow-up'')]\<rparr>
   \<and> call_request (sample_metadata\<lparr>phone := Some ''555-0142''\<rparr>) ''Ada Lovelace'' working_host =
     \<lparr>url = ''https://api.example.test/call_client'',
      request_method = ''POST'',
      headers = [(''Content-Type'', ''application/json'')],
      body = JObject
        [(''client_name'', JString ''Ada Lovelace''),
         (''phone'', JString ''555-0142''),
         (''reason'', JString ''Case review follow-up'')]\<rparr>"
  using call_request_defaults
          [where md = sample_metadata and name = "''Ada Lovelace''" and h = failing_host
             and w = initial_world]
        call_request_defaults
          [where md = "sample_metadata\<lparr>phone := Some ''555-0142''\<rparr>" and name = "''Ada Lovelace''"
             and h = working_host and w = initial_world]
  by (simp add: sample_metadata_def failing_host_def working_host_def call_request_def or_default_def)

section \<open>Properties of the chat-message renderer\<close>

lemma onClicks_avatar: "onClicks (avatar m) = []"
  by (simp add: avatar_def)

lemma onClicks_agent_header: "concat (map onClicks (agent_header pct m)) = []"
  by (auto simp: agent_header_def split: option.split)

lemma onClicks_bubble: "onClicks (bubble pct tls m) = []"
  by (simp add: bubble_def onClicks_agent_header)

lemma onClicks_status_badge: "concat (map onClicks (status_badge m)) = []"
  by (auto simp: status_badge_def split: option.split)

lemma onClicks_approval_buttons:
  "concat (map onClicks (approval_buttons m)) =
     (if requiresApproval m = Some True \<and> Message.status m = Some Status_pending
      then [HandleAction (id' m) Approve, HandleAction (id' m) Modify, HandleAction (id' m) Reject]
      else [])"
  by (simp add: approval_buttons_def)

lemma onClicks_message_row:
  "onClicks (message_row pct tls i m) =
     (if requiresApproval m = Some True \<and> Message.status m = Some Status_pending
      then [HandleAction (id' m) Approve, HandleAction (id' m) Modify, HandleAction (id' m) Reject]
      else [])"
  by (simp add: message_row_def onClicks_avatar onClicks_bubble onClicks_status_badge
      onClicks_approval_buttons)

lemma concat_map_enumerate:
  "(\<And>i x. f (g i x) = k x) \<Longrightarrow>
   concat (map f (map (\<lambda>(i, x). g i x) (List.enumerate n xs))) = concat (map k xs)"
  by (induction xs arbitrary: n) simp_all

lemma concat_map_if:
  "concat (map (\<lambda>x. if P x then k x else []) xs) = concat (map k (filter P xs))"
  by (induction xs) simp_all

lemma onClicks_placeholder: "onClicks placeholder = []"
  by (simp add: placeholder_def)

lemma onClicks_ChatInterface:
  "onClicks (ChatInterface pct tls props) =
     concat (map (\<lambda>m. [HandleAction (id' m) Approve, HandleAction (id' m) Modify,
                         HandleAction (id' m) Reject])
       (filter (\<lambda>m. requiresApproval m = Some True \<and> Message.status m = Some Status_pending)
          (messages props)))"
proof -
  have "concat (map onClicks (map (\<lambda>(i, m). message_row pct tls i m)
          (List.enumerate 0 (messages props)))) =
        concat (map (\<lambda>m. if requiresApproval m = Some True \<and> Message.status m = Some Status_pending
          then [HandleAction (id' m) Approve, HandleAction (id' m) Modify, HandleAction (id' m) Reject]
          else []) (messages props))"
    by (rule concat_map_enumerate) (rule onClicks_message_row)
  then show ?thesis
    by (simp add: ChatInterface_def onClicks_placeholder concat_map_if)
qed


lemma elements_Button_avatar: "elements ''Button'' (avatar m) = []"
  by (simp add: avatar_def)

lemma elements_Button_agent_header: "concat (map (elements ''Button'') (agent_header pct m)) = []"
  by (auto simp: agent_header_def split: option.split)

lemma elements_Button_bubble: "elements ''Button'' (bubble pct tls m) = []"
  by (simp add: bubble_def elements_Button_agent_header)

lemma elements_Button_status_badge: "concat (map (elements ''Button'') (status_badge m)) = []"
  by (auto simp: status_badge_def split: option.split)

lemma buttons_approval_buttons:
  "map (\<lambda>b. (onClicks b, texts b)) (concat (map (elements ''Button'') (approval_buttons m))) =
     (if requiresApproval m = Some True \<and> Message.status m = Some Status_pending
      then [([HandleAction (id' m) Approve], [''Approve'']),
            ([HandleAction (id' m) Modify], [''Modify'']),
            ([HandleAction (id' m) Reject], [''Reject''])]
      else [])"
  by (simp add: approval_buttons_def)

lemma buttons_message_row:
  "map (\<lambda>b. (onClicks b, texts b)) (elements ''Button'' (message_row pct tls i m)) =
     (if requiresApproval m = Some True \<and> Message.status m = Some Status_pending
      then [([HandleAction (id' m) Approve], [''Approve'']),
            ([HandleAction (id' m) Modify], [''Modify'']),
            ([HandleAction (id' m) Reject], [''Reject''])]
      else [])"
  by (simp add: message_row_def elements_Button_avatar elements_Button_bubble
      elements_Button_status_badge buttons_approval_buttons)

lemma buttons_ChatInterface:
  "map (\<lambda>b. (onClicks b, texts b)) (elements ''Button'' (ChatInterface pct tls props)) =
     concat (map (\<lambda>m. [([HandleAction (id' m) Approve], [''Approve'']),
                         ([HandleAction (id' m) Modify], [''Modify'']),
                         ([HandleAction (id' m) Reject], [''Reject''])])
       (filter (\<lambda>m. requiresApproval m = Some True \<and> Message.status m = Some Status_pending)
          (messages props)))"
proof -
  have "concat (map (\<lambda>r. map (\<lambda>b. (onClicks b, texts b)) (elements ''Button'' r))
          (map (\<lambda>(i, m). message_row pct tls i m) (List.enumerate 0 (messages props)))) =
        concat (map (\<lambda>m. if requiresApproval m = Some True \<and> Message.status m = Some Status_pending
          then [([HandleAction (id' m) Approve], [''Approve'']),
                ([HandleAction (id' m) Modify], [''Modify'']),
                ([HandleAction (id' m) Reject], [''Reject''])]
          else []) (messages props))"
    by (rule concat_map_enumerate) (rule buttons_message_row)
  then show ?thesis
    by (simp add: ChatInterface_def placeholder_def concat_map_if map_concat comp_def)
qed

lemma badges_avatar: "elements ''motion.div'' (avatar m) = []"
  by (simp add: avatar_def)

lemma badges_agent_header: "concat (map (elements ''motion.div'') (agent_header pct m)) = []"
  by (auto simp: agent_header_def split: option.split)

lemma badges_bubble: "elements ''motion.div'' (bubble pct tls m) = []"
  by (simp add: bubble_def badges_agent_header)

lemma badges_approval_buttons:
  "with_class ''mt-2'' (concat (map (elements ''motion.div'') (approval_buttons m))) = []"
  by (simp add: approval_buttons_def with_class_def)

lemma badges_status_badge:
  "with_class ''mt-2'' (concat (map (elements ''motion.div'') (status_badge m))) = status_badge m"
  by (simp add: status_badge_def with_class_def split: option.split)

lemma badges_message_row:
  "with_class ''mt-2'' (elements ''motion.div'' (message_row pct tls i m)) = status_badge m"
  using badges_approval_buttons [of m] badges_status_badge [of m]
  by (simp add: message_row_def badges_avatar badges_bubble with_class_def)

lemma badges_ChatInterface:
  "with_class ''mt-2'' (elements ''motion.div'' (ChatInterface pct tls props)) =
     concat (map status_badge (messages props))"
proof -
  have "concat (map (\<lambda>r. with_class ''mt-2'' (elements ''motion.div'' r))
          (map (\<lambda>(i, m). message_row pct tls i m) (List.enumerate 0 (messages props)))) =
        concat (map status_badge (messages props))"
    by (rule concat_map_enumerate) (rule badges_message_row)
  then show ?thesis
    by (simp add: ChatInterface_def placeholder_def with_class_def filter_concat comp_def)
qed

lemma toUpperCase_status:
  "toUpperCase ''approved'' = ''APPROVED''"
  "toUpperCase ''rejected'' = ''REJECTED''"
  "toUpperCase ''modified'' = ''MODIFIED''"
  by code_simp+

lemma status_string_pending: "status_string s = ''pending'' \<longleftrightarrow> s = Status_pending"
  by (cases s) simp_all

lemma texts_status_badge:
  "map texts (status_badge m) =
     (case Message.status m of
        None \<Rightarrow> []
      | Some s \<Rightarrow> if s = Status_pending then [] else [[toUpperCase (status_string s)]])"
  by (simp add: status_badge_def status_string_pending split: option.split)

text \<open>
  Claim C7. The buttons of the rendered tree are, in order, an Approve, a Modify and a
  Reject button for each message whose \<^verbatim>\<open>requiresApproval\<close> is true and whose status is
  \<^verbatim>\<open>pending\<close>, and no others. So every \<^verbatim>\<open>onClick\<close> closure of the tree belongs to such a
  message, and clicking it can only call \<^verbatim>\<open>onMessageAction\<close> with that message's id. The
  status badges of the tree are those of the messages, and a message has a badge, with
  its status in upper case, exactly when its status is present and not \<^verbatim>\<open>pending\<close>.
\<close>

theorem buttons_only_for_pending_approval:
  "map (\<lambda>b. (onClicks b, texts b)) (elements ''Button'' (ChatInterface pct tls props)) =
     concat (map (\<lambda>m. [([HandleAction (id' m) Approve], [''Approve'']),
                         ([HandleAction (id' m) Modify], [''Modify'']),
                         ([HandleAction (id' m) Reject], [''Reject''])])
       (filter (\<lambda>m. requiresApproval m = Some True \<and> Message.status m = Some Status_pending)
          (messages props)))
   \<and> (\<forall>c \<in> set (onClicks (ChatInterface pct tls props)).
         \<exists>m \<in> set (messages props). \<exists>a.
           c = HandleAction (id' m) a
           \<and> requiresApproval m = Some True \<and> Message.status m = Some Status_pending
           \<and> (\<forall>w. click props c w =
                 (case onMessageAction props of None \<Rightarrow> w | Some f \<Rightarrow> f (id' m) a w)))
   \<and> with_class ''mt-2'' (elements ''motion.div'' (ChatInterface pct tls props)) =
       concat (map status_badge (messages props))
   \<and> (\<forall>m. map texts (status_badge m) =
         (case Message.status m of
            None \<Rightarrow> []
          | Some s \<Rightarrow> if s = Status_pending then [] else [[toUpperCase (status_string s)]]))"
proof (intro conjI)
  show "map (\<lambda>b. (onClicks b, texts b)) (elements ''Button'' (ChatInterface pct tls props)) =
     concat (map (\<lambda>m. [([HandleAction (id' m) Approve], [''Approve'']),
                         ([HandleAction (id' m) Modify], [''Modify'']),
                         ([HandleAction (id' m) Reject], [''Reject''])])
       (filter (\<lambda>m. requiresApproval m = Some True \<and> Message.status m = Some Status_pending)
          (messages props)))"
    by (rule buttons_ChatInterface)
  show "\<forall>c \<in> set (onClicks (ChatInterface pct tls props)).
         \<exists>m \<in> set (messages props). \<exists>a.
           c = HandleAction (id' m) a
           \<and> requiresApproval m = Some True \<and> Message.status m = Some Status_pending
           \<and> (\<forall>w. click props c w =
                 (case onMessageAction props of None \<Rightarrow> w | Some f \<Rightarrow> f (id' m) a w))"
    by (fastforce simp: onClicks_ChatInterface handleAction_def)
  show "with_class ''mt-2'' (elements ''motion.div'' (ChatInterface pct tls props)) =
       concat (map status_badge (messages props))"
    by (rule badges_ChatInterface)
  show "\<forall>m. map texts (status_badge m) =
         (case Message.status m of
            None \<Rightarrow> []
          | Some s \<Rightarrow> if s = Status_pending then [] else [[toUpperCase (status_string s)]])"
    by (simp add: texts_status_badge)
qed

theorem buttons_only_for_pending_approval_witness:
  "map (\<lambda>b. (onClicks b, texts b))
     (elements ''Button''
        (ChatInterface no_percent clock_24h
           \<lparr>messages = [sample_message, pending_message, approved_message],
            onMessageAction = Some record_call\<rparr>)) =
     [([HandleAction ''m2'' Approve], [''Approve'']),
      ([HandleAction ''m2'' Modify], [''Modify'']),
      ([HandleAction ''m2'' Reject], [''Reject''])]
   \<and> map texts (with_class ''mt-2'' (elements ''motion.div''
        (ChatInterface no_percent clock_24h
           \<lparr>messages = [sample_message, pending_message, approved_message],
            onMessageAction = Some record_call\<rparr>))) = [[''APPROVED'']]"
  using buttons_only_for_pending_approval
          [of no_percent clock_24h
              "\<lparr>messages = [sample_message, pending_message, approved_message],
                onMessageAction = Some record_call\<rparr>"]
  by (simp add: sample_message_def pending_message_def approved_message_def toUpperCase_status)

text \<open>
  Claim C2 as stated fails: a message without \<^verbatim>\<open>requiresApproval\<close> is in the rendered
  list and gets no button and no \<^verbatim>\<open>onClick\<close> closure at all.
\<close>

theorem plain_message_has_no_buttons_counterexample:
  "sample_message \<in> set (messages \<lparr>messages = [sample_message], onMessageAction = Some record_call\<rparr>)
   \<and> elements ''Button''
       (ChatInterface no_percent clock_24h
          \<lparr>messages = [sample_message], onMessageAction = Some record_call\<rparr>) = []
   \<and> onClicks
       (ChatInterface no_percent clock_24h
          \<lparr>messages = [sample_message], onMessageAction = Some record_call\<rparr>) = []"
  using buttons_ChatInterface
          [of no_percent clock_24h "\<lparr>messages = [sample_message], onMessageAction = Some record_call\<rparr>"]
        onClicks_ChatInterface
          [of no_percent clock_24h "\<lparr>messages = [sample_message], onMessageAction = Some record_call\<rparr>"]
  by (simp add: sample_message_def)

text \<open>
  Claim C2, amended. For every message of the list whose \<^verbatim>\<open>requiresApproval\<close> is true
  and whose status is \<^verbatim>\<open>pending\<close>, the tree has an Approve, a Modify and a Reject button
  for it; clicking one is exactly one call of \<^verbatim>\<open>onMessageAction\<close>, when that prop was
  passed, with the message's id and the chosen action, and does nothing when it was not.
\<close>

theorem pending_approval_buttons_call_back:
  assumes "m \<in> set (messages props)"
    and "requiresApproval m = Some True" and "Message.status m = Some Status_pending"
  shows "([HandleAction (id' m) Approve], [''Approve'']) \<in>
        set (map (\<lambda>b. (onClicks b, texts b)) (elements ''Button'' (ChatInterface pct tls props)))
    \<and> ([HandleAction (id' m) Modify], [''Modify'']) \<in>
        set (map (\<lambda>b. (onClicks b, texts b)) (elements ''Button'' (ChatInterface pct tls props)))
    \<and> ([HandleAction (id' m) Reject], [''Reject'']) \<in>
        set (map (\<lambda>b. (onClicks b, texts b)) (elements ''Button'' (ChatInterface pct tls props)))
    \<and> (\<forall>a f w. onMessageAction props = Some f \<longrightarrow>
          click props (HandleAction (id' m) a) w = f (id' m) a w)
    \<and> (\<forall>a w. onMessageAction props = None \<longrightarrow>
          click props (HandleAction (id' m) a) w = w)"
  using assms
  by (force simp: buttons_ChatInterface handleAction_def)

theorem pending_approval_buttons_call_back_witness:
  "([HandleAction ''m2'' Approve], [''Approve'']) \<in>
      set (map (\<lambda>b. (onClicks b, texts b))
        (elements ''Button''
           (ChatInterface no_percent clock_24h
              \<lparr>messages = [sample_message, pending_message],
               onMessageAction = Some record_call\<rparr>)))
   \<and> click \<lparr>messages = [sample_message, pending_message], onMessageAction = Some record_call\<rparr>
        (HandleAction ''m2'' Approve) [] = [(''m2'', Approve)]
   \<and> click \<lparr>messages = [sample_message, pending_message], onMessageAction = Some record_call\<rparr>
        (HandleAction ''m2'' Reject) [(''m2'', Modify)] = [(''m2'', Modify), (''m2'', Reject)]"
proof -
  have m: "pending_message \<in> set (messages
        \<lparr>messages = [sample_message, pending_message], onMessageAction = Some record_call\<rparr>)"
      "requiresApproval pending_message = Some True"
      "Message.status pending_message = Some Status_pending"
    by (simp_all add: pending_message_def)
  have i: "id' pending_message = ''m2''"
    by (simp add: pending_message_def)
  from pending_approval_buttons_call_back [OF m, of no_percent clock_24h]
  show ?thesis
    by (simp add: i record_call_def)
qed










end
